theory Spec2Isabelle
  imports Main "HOL-Library.Word"
begin

unbundle bit_operations_syntax

section \<open>Go values\<close>

text \<open>
  The model fixes a 64-bit platform: Go's \<open>int\<close> and \<open>uint64\<close> are both 64-bit words.
  Arithmetic wraps around; an \<open>int\<close> is read as two's complement (\<open>sint\<close>) and compared
  with the signed orders \<open><s\<close> and \<open>\<le>s\<close>; a \<open>uint64\<close> is read with \<open>uint\<close>.
  A \<open>float64\<close> is carried as its IEEE-754 binary64 bit pattern: the code below only
  stores and copies such values.
\<close>

type_synonym byte = "8 word"
type_synonym int16 = "16 word"
type_synonym go_int = "64 word"
type_synonym uint64 = "64 word"
type_synonym float64 = "64 word"

text \<open>Go's conversion \<open>int(u)\<close> of a \<open>uint64\<close>: the same 64 bits, read as signed.\<close>

definition go_int_of_uint64 :: "uint64 \<Rightarrow> go_int" where
  "go_int_of_uint64 u = ucast u"

text \<open>Go's conversion \<open>int(b)\<close> of a \<open>byte\<close>: zero extension.\<close>

definition go_int_of_byte :: "byte \<Rightarrow> go_int" where
  "go_int_of_byte b = ucast b"

text \<open>
  A Go \<open>error\<close> value is represented by its message. A call either returns a value,
  returns an error, or panics (with the panic's message).
\<close>

type_synonym error = string

datatype 'a outcome = Returned 'a | Failed error | Panicked string

section \<open>CPC compressed state (src/cpc/cpc_compressed_state.go)\<close>

text \<open>
  Modelled from the spec: the type \<open>CpcFormat\<close> and its constants are declared outside
  src/. The code converts an \<open>int\<close> to it and indexes a slice with it, so it is an
  integer type; the spec (3.2) gives the eight ordinals.
\<close>

type_synonym CpcFormat = go_int

definition CpcformatEmptyMerged :: CpcFormat where
  "CpcformatEmptyMerged = 0"

definition CpcFormatEmptyHip :: CpcFormat where
  "CpcFormatEmptyHip = 1"

definition CpcFormatSparseHybridMerged :: CpcFormat where
  "CpcFormatSparseHybridMerged = 2"

definition CpcFormatSparceHybridHip :: CpcFormat where
  "CpcFormatSparceHybridHip = 3"

definition CpcFormatPinnedSlidingMergedNosv :: CpcFormat where
  "CpcFormatPinnedSlidingMergedNosv = 4"

definition CpcFormatPinnedSlidingHipNosv :: CpcFormat where
  "CpcFormatPinnedSlidingHipNosv = 5"

definition CpcFormatPinnedSlidingMerged :: CpcFormat where
  "CpcFormatPinnedSlidingMerged = 6"

definition CpcFormatPinnedSlidingHip :: CpcFormat where
  "CpcFormatPinnedSlidingHip = 7"

text \<open>The struct \<open>CpcCompressedState\<close>. A nil slice is the empty list.\<close>

record CpcCompressedState =
  CsvIsValid :: bool
  WindowIsValid :: bool
  LgK :: go_int
  SeedHash :: int16
  FiCol :: go_int
  MergeFlag :: bool
  NumCoupons :: uint64
  Kxp :: float64
  HipEstAccum :: float64
  NumCsv :: go_int
  CsvStream :: "go_int list"
  CsvLengthInts :: go_int
  CwStream :: "go_int list"
  CwLengthInts :: go_int

text \<open>The preamble space required by each of the formats, in 4-byte integers.\<close>

definition preIntsDefs :: "byte list" where
  "preIntsDefs = [2, 2, 4, 8, 4, 8, 6, 10]"

text \<open>
  \<open>float64(int(1) << lgK)\<close> for a shift count that is not negative. The shifted value
  is \<open>2 ^ lgK\<close> below 63, \<open>- 2 ^ 63\<close> at 63 and \<open>0\<close> from 64 on; each is exact as a
  double, whose bits are given here (biased exponent \<open>1023 + lgK\<close> in bits 52 to 62).
\<close>

definition float64_of_one_shl :: "go_int \<Rightarrow> float64" where
  "float64_of_one_shl lgK =
     (if 64 \<le>s lgK then 0
      else if lgK = 63 then 0xC3E0000000000000
      else push_bit 52 (1023 + lgK))"

text \<open>
  \<open>NewCpcCompressedState\<close>: every field but \<open>LgK\<close>, \<open>SeedHash\<close> and \<open>Kxp\<close> has its zero
  value. Go panics on a shift by a negative count.
\<close>

definition NewCpcCompressedState :: "go_int \<Rightarrow> int16 \<Rightarrow> CpcCompressedState outcome" where
  "NewCpcCompressedState lgK seedHash =
     (if lgK <s 0 then Panicked ''negative shift amount''
      else Returned
        \<lparr>CsvIsValid = False, WindowIsValid = False, LgK = lgK, SeedHash = seedHash,
         FiCol = 0, MergeFlag = False, NumCoupons = 0,
         Kxp = float64_of_one_shl lgK, HipEstAccum = 0,
         NumCsv = 0, CsvStream = [], CsvLengthInts = 0, CwStream = [], CwLengthInts = 0\<rparr>)"

definition getFormat :: "CpcCompressedState \<Rightarrow> CpcFormat" where
  "getFormat c =
     (let ordinal = 0;
          ordinal = (if 0 <s CwLengthInts c then ordinal OR 4 else ordinal);
          ordinal = (if 0 <s NumCsv c then ordinal OR 2 else ordinal);
          ordinal = (if MergeFlag c then ordinal OR 1 else ordinal)
      in ordinal)"

text \<open>\<open>getDefinedPreInts\<close>: indexing the slice out of range panics.\<close>

definition getDefinedPreInts :: "CpcFormat \<Rightarrow> go_int outcome" where
  "getDefinedPreInts format =
     (if 0 \<le>s format \<and> sint format < int (length preIntsDefs)
      then Returned (go_int_of_byte (preIntsDefs ! nat (sint format)))
      else Panicked ''index out of range'')"

definition getRequiredSerializedBytes :: "CpcCompressedState \<Rightarrow> go_int outcome" where
  "getRequiredSerializedBytes c =
     (case getDefinedPreInts (getFormat c) of
        Returned preInts \<Rightarrow> Returned (4 * (preInts + CsvLengthInts c + CwLengthInts c))
      | Failed e \<Rightarrow> Failed e
      | Panicked m \<Rightarrow> Panicked m)"

text \<open>
  The spec's table of preamble sizes (3.2), written as the function of the ordinal that
  the spec calls \<open>pre_ints\<close>; outside 0..7 the spec defines nothing.
\<close>

definition pre_ints_spec :: "CpcFormat \<Rightarrow> go_int" where
  "pre_ints_spec ord =
     (if ord = 0 then 2 else if ord = 1 then 2 else if ord = 2 then 4
      else if ord = 3 then 8 else if ord = 4 then 4 else if ord = 5 then 8
      else if ord = 6 then 6 else if ord = 7 then 10 else 0)"

text \<open>\<open>getWindowOffset\<close>. The function \<open>determineCorrectOffset\<close> is not under src/ and
  the spec leaves its formula open, so it is a parameter.\<close>

definition getWindowOffset ::
  "(go_int \<Rightarrow> uint64 \<Rightarrow> go_int) \<Rightarrow> CpcCompressedState \<Rightarrow> go_int" where
  "getWindowOffset determineCorrectOffset c = determineCorrectOffset (LgK c) (NumCoupons c)"

text \<open>
  Modelled from the spec: the struct \<open>CpcSketch\<close> is declared outside src/. These are the
  fields that \<open>uncompress\<close> assigns (spec 4.2); whatever else the struct holds is the
  record's extension. A nil slice or pointer is \<open>None\<close>.
\<close>

record 'p CpcSketch =
  numCoupons :: uint64
  windowOffset :: go_int
  fiCol :: go_int
  mergeFlag :: bool
  kxp :: float64
  hipEstAccum :: float64
  slidingWindow :: "byte list option"
  pairTable :: "'p option"

text \<open>
  \<open>uncompress\<close>. The constructor \<open>NewCpcSketch\<close> is not under src/ and is a parameter: it
  returns a sketch or an error. The two calls that are comments in the source (the check
  of the seed hash and the decompression of the streams) are not part of the function.
\<close>

definition uncompress ::
  "(go_int \<Rightarrow> uint64 \<Rightarrow> ('p, 'z) CpcSketch_scheme outcome) \<Rightarrow> (go_int \<Rightarrow> uint64 \<Rightarrow> go_int) \<Rightarrow>
   CpcCompressedState \<Rightarrow> uint64 \<Rightarrow> ('p, 'z) CpcSketch_scheme outcome" where
  "uncompress NewCpcSketch determineCorrectOffset c seed =
     (case NewCpcSketch (LgK c) seed of
        Failed err \<Rightarrow> Failed err
      | Panicked m \<Rightarrow> Panicked m
      | Returned sketch \<Rightarrow>
          Returned (sketch
            \<lparr>numCoupons := NumCoupons c,
             windowOffset := getWindowOffset determineCorrectOffset c,
             fiCol := FiCol c,
             mergeFlag := MergeFlag c,
             kxp := Kxp c,
             hipEstAccum := HipEstAccum c,
             slidingWindow := None,
             pairTable := None\<rparr>))"

text \<open>
  The accessors of the byte image that \<open>importFromMemory\<close> calls are not under src/.
  They are parameters, each with the type its use in the source fixes; \<open>checkLoPreamble\<close>
  and \<open>checkCapacity\<close> return \<open>None\<close> for a nil error. An accessor is a total function
  here: it returns.
\<close>

record preamble_util =
  checkLoPreamble :: "byte list \<Rightarrow> error option"
  isCompressed :: "byte list \<Rightarrow> bool"
  getLgK :: "byte list \<Rightarrow> go_int"
  getSeedHash :: "byte list \<Rightarrow> int16"
  getFormatOrdinal :: "byte list \<Rightarrow> go_int"
  getNumCoupons :: "byte list \<Rightarrow> uint64"
  getSvLengthInts :: "byte list \<Rightarrow> go_int"
  getSvStream :: "byte list \<Rightarrow> go_int list"
  getKxP :: "byte list \<Rightarrow> float64"
  getHipAccum :: "byte list \<Rightarrow> float64"
  checkCapacity :: "go_int \<Rightarrow> go_int \<Rightarrow> error option"

text \<open>\<open>len(bytes)\<close> as a Go \<open>int\<close>.\<close>

definition len :: "byte list \<Rightarrow> go_int" where
  "len bytes = of_nat (length bytes)"

text \<open>
  The capacity check of an arm of the switch: \<open>required\<close> is the second argument of
  \<open>checkCapacity\<close> (whose evaluation may panic), \<open>state\<close> is what the arm leaves in
  \<open>state\<close> when the check passes. In the source the stream is assigned after the check;
  the assignment cannot fail, so the arms below pass the state with the stream assigned.
\<close>

definition withCapacity ::
  "preamble_util \<Rightarrow> byte list \<Rightarrow> go_int outcome \<Rightarrow> CpcCompressedState \<Rightarrow>
   CpcCompressedState outcome" where
  "withCapacity U bytes required state =
     (case required of
        Panicked m \<Rightarrow> Panicked m
      | Failed e \<Rightarrow> Failed e
      | Returned n \<Rightarrow>
          (case checkCapacity U (len bytes) n of
             Some err \<Rightarrow> Failed err
           | None \<Rightarrow> Returned state))"

text \<open>\<open>importFromMemory\<close>, arm by arm in the order of the source's switch.\<close>

definition importFromMemory :: "preamble_util \<Rightarrow> byte list \<Rightarrow> CpcCompressedState outcome" where
  "importFromMemory U bytes =
     (case checkLoPreamble U bytes of
        Some err \<Rightarrow> Failed err
      | None \<Rightarrow>
          if isCompressed U bytes then
            (case NewCpcCompressedState (getLgK U bytes) (getSeedHash U bytes) of
               Panicked m \<Rightarrow> Panicked m
             | Failed e \<Rightarrow> Failed e
             | Returned state0 \<Rightarrow>
                 (let fmtOrd = getFormatOrdinal U bytes;
                      format = fmtOrd;
                      state = state0
                        \<lparr>MergeFlag := (fmtOrd AND 1 = 0),
                         CsvIsValid := 0 <s (fmtOrd AND 2),
                         WindowIsValid := 0 <s (fmtOrd AND 4)\<rparr>
                  in if format = CpcformatEmptyMerged \<or> format = CpcFormatEmptyHip then
                       withCapacity U bytes (Returned 8) state
                     else if format = CpcFormatSparseHybridMerged then
                       (let state = state\<lparr>NumCoupons := getNumCoupons U bytes\<rparr>;
                            state = state\<lparr>NumCsv := go_int_of_uint64 (NumCoupons state)\<rparr>;
                            state = state\<lparr>CsvLengthInts := getSvLengthInts U bytes\<rparr>
                        in withCapacity U bytes (getRequiredSerializedBytes state)
                             (state\<lparr>CsvStream := getSvStream U bytes\<rparr>))
                     else if format = CpcFormatSparceHybridHip then
                       (let state = state\<lparr>NumCoupons := getNumCoupons U bytes\<rparr>;
                            state = state\<lparr>NumCsv := go_int_of_uint64 (NumCoupons state)\<rparr>;
                            state = state\<lparr>CsvLengthInts := getSvLengthInts U bytes\<rparr>;
                            state = state\<lparr>Kxp := getKxP U bytes\<rparr>;
                            state = state\<lparr>HipEstAccum := getHipAccum U bytes\<rparr>
                        in withCapacity U bytes (getRequiredSerializedBytes state)
                             (state\<lparr>CsvStream := getSvStream U bytes\<rparr>))
                     else Panicked ''not implemented''))
          else Failed ''not compressed'')"

text \<open>
  Modelled from the spec: one instance of the accessors, to evaluate \<open>importFromMemory\<close>
  on concrete images. The spec (6.2) says that the low preamble carries the
  compressed flag, the format ordinal, \<open>lg_k\<close> and \<open>seed_hash\<close> and that later words
  carry \<open>num_coupons\<close>, \<open>csv_length_ints\<close>, \<open>kxp\<close> and \<open>hip_est_accum\<close>, little-endian,
  but not where. The positions here are those of the Apache DataSketches CPC image:
  byte 1 the serial version (1), byte 2 the family (16), byte 3 \<open>lg_k\<close>, byte 5 the
  flags (bit 1 compressed, bits 2 to 4 the format ordinal), bytes 6 and 7 the seed hash,
  then \<open>num_coupons\<close> at byte 8, \<open>csv_length_ints\<close> at byte 12, \<open>kxp\<close> at byte 16,
  \<open>hip_est_accum\<close> at byte 24, and the stream after the preamble. A read past the end
  of the image gives 0 in this instance.
\<close>

definition byte_at :: "byte list \<Rightarrow> nat \<Rightarrow> byte" where
  "byte_at bytes i = (if i < length bytes then bytes ! i else 0)"

definition le32_at :: "byte list \<Rightarrow> nat \<Rightarrow> 32 word" where
  "le32_at bytes i =
     ucast (byte_at bytes i) OR push_bit 8 (ucast (byte_at bytes (i + 1)))
     OR push_bit 16 (ucast (byte_at bytes (i + 2))) OR push_bit 24 (ucast (byte_at bytes (i + 3)))"

definition le64_at :: "byte list \<Rightarrow> nat \<Rightarrow> 64 word" where
  "le64_at bytes i = ucast (le32_at bytes i) OR push_bit 32 (ucast (le32_at bytes (i + 4)))"

definition image_ordinal :: "byte list \<Rightarrow> go_int" where
  "image_ordinal bytes = ucast (drop_bit 2 (byte_at bytes 5) AND 7)"

definition image_checkLoPreamble :: "byte list \<Rightarrow> error option" where
  "image_checkLoPreamble bytes =
     (if length bytes < 8 then Some ''insufficient image bytes''
      else if byte_at bytes 1 = 1 then
        (if byte_at bytes 2 = 16 then None else Some ''not a CPC image'')
      else Some ''wrong serial version'')"

definition image_checkCapacity :: "go_int \<Rightarrow> go_int \<Rightarrow> error option" where
  "image_checkCapacity memCap expectedCap =
     (if memCap <s expectedCap then Some ''insufficient image bytes'' else None)"

definition image_getSvStream :: "byte list \<Rightarrow> go_int list" where
  "image_getSvStream bytes =
     map (\<lambda>i. ucast (le32_at bytes (4 * unat (byte_at bytes 0) + 4 * i)))
       [0 ..< unat (le32_at bytes 12)]"

definition image_util :: preamble_util where
  "image_util =
     \<lparr>checkLoPreamble = image_checkLoPreamble,
      isCompressed = (\<lambda>bytes. bit (byte_at bytes 5) 1),
      getLgK = (\<lambda>bytes. ucast (byte_at bytes 3)),
      getSeedHash = (\<lambda>bytes. ucast (byte_at bytes 6) OR push_bit 8 (ucast (byte_at bytes 7))),
      getFormatOrdinal = image_ordinal,
      getNumCoupons = (\<lambda>bytes. ucast (le32_at bytes 8)),
      getSvLengthInts = (\<lambda>bytes. ucast (le32_at bytes 12)),
      getSvStream = image_getSvStream,
      getKxP = (\<lambda>bytes. le64_at bytes 16),
      getHipAccum = (\<lambda>bytes. le64_at bytes 24),
      checkCapacity = image_checkCapacity\<rparr>"

text \<open>
  One instance of the constructor \<open>NewCpcSketch\<close>, to evaluate \<open>uncompress\<close>: it accepts
  \<open>lgK\<close> from 4 to 26 and returns a sketch with zero fields, an empty window and an
  empty pair table.
\<close>

definition sample_NewCpcSketch :: "go_int \<Rightarrow> uint64 \<Rightarrow> (go_int list) CpcSketch outcome" where
  "sample_NewCpcSketch lgK seed =
     (if lgK <s 4 \<or> 26 <s lgK then Failed ''lgK out of range''
      else Returned
        \<lparr>numCoupons = 0, windowOffset = 0, fiCol = 0, mergeFlag = False, kxp = 0,
         hipEstAccum = 0, slidingWindow = Some [], pairTable = Some []\<rparr>)"

text \<open>A state to evaluate \<open>uncompress\<close> on.\<close>

definition sample_state :: CpcCompressedState where
  "sample_state =
     \<lparr>CsvIsValid = True, WindowIsValid = False, LgK = 11, SeedHash = 0x1234,
      FiCol = 5, MergeFlag = False, NumCoupons = 3,
      Kxp = 0x409FFA0000000000, HipEstAccum = 0x4008000000000000,
      NumCsv = 3, CsvStream = [7, 9, 11, 13], CsvLengthInts = 4,
      CwStream = [], CwLengthInts = 0\<rparr>"

section \<open>Frequent-items sketch (package frequencies)\<close>

text \<open>
  Modelled from the spec: the frequent-items sketch itself (its struct, constructor,
  \<open>Update\<close>, \<open>UpdateMany\<close> and the queries) is not under src/; only its test file
  src/frequencies/iterms_sketch_test.go is. The definitions follow spec 3.1 and 4.1 and
  take the names the test calls. Counts are signed 64-bit integers. The counter map is
  an association list with unique keys; an item of a nullable type is an \<open>option\<close>, the
  nil sentinel being \<open>None\<close>, and only items that are not nil are keys.
\<close>

type_synonym int64 = "64 word"

definition LG_MIN_MAP_SIZE :: nat where
  "LG_MIN_MAP_SIZE = 3"

record 'a ItemsSketch =
  lgMaxMapSize :: nat
  lgCurMapSize :: nat
  counterMap :: "('a \<times> int64) list"
  offset :: int64
  streamLength :: int64
  hasher :: "'a \<Rightarrow> uint64"

text \<open>Modelled from the spec: \<open>new(lg_max_map_size, hasher)\<close>, the constructor (4.1).\<close>

definition NewItemsSketch :: "nat \<Rightarrow> ('a \<Rightarrow> uint64) \<Rightarrow> 'a ItemsSketch outcome" where
  "NewItemsSketch lgMax h =
     (if lgMax < LG_MIN_MAP_SIZE then Failed ''InvalidArgument''
      else Returned
        \<lparr>lgMaxMapSize = lgMax, lgCurMapSize = LG_MIN_MAP_SIZE, counterMap = [],
         offset = 0, streamLength = 0, hasher = h\<rparr>)"

text \<open>
  Modelled from the spec: \<open>stored(item)\<close>, the count of the item in the map, 0 if it is
  absent (3.1); and whether the item is in the map.
\<close>

definition stored :: "'a ItemsSketch \<Rightarrow> 'a option \<Rightarrow> int64" where
  "stored sk item =
     (case item of
        None \<Rightarrow> 0
      | Some k \<Rightarrow> (case map_of (counterMap sk) k of None \<Rightarrow> 0 | Some c \<Rightarrow> c))"

definition present :: "'a ItemsSketch \<Rightarrow> 'a option \<Rightarrow> bool" where
  "present sk item =
     (case item of
        None \<Rightarrow> False
      | Some k \<Rightarrow> (case map_of (counterMap sk) k of None \<Rightarrow> False | Some c \<Rightarrow> True))"

text \<open>
  Modelled from the spec: the purge of step 4 of the update algorithm (4.1). Subtract
  the median count from every entry, drop the entries whose count is no longer
  positive, add the median to the offset. The spec does not say which of the two
  middle counts of an even number of entries is the median: here it is the upper one.
\<close>

definition median_count :: "('a \<times> int64) list \<Rightarrow> int64" where
  "median_count m = (case m of [] \<Rightarrow> 0 | e # es \<Rightarrow> sort_key sint (map snd m) ! (length m div 2))"

definition purge :: "'a ItemsSketch \<Rightarrow> 'a ItemsSketch" where
  "purge sk =
     (let median = median_count (counterMap sk)
      in sk\<lparr>counterMap := filter (\<lambda>(k, c). 0 <s c) (map (\<lambda>(k, c). (k, c - median)) (counterMap sk)),
            offset := offset sk + median\<rparr>)"

text \<open>
  Modelled from the spec: steps 1 to 4 of the update algorithm (4.1), for an item that
  is not nil.
\<close>

definition update_algorithm :: "'a ItemsSketch \<Rightarrow> 'a \<Rightarrow> int64 \<Rightarrow> 'a ItemsSketch" where
  "update_algorithm sk k weight =
     (case map_of (counterMap sk) k of
        Some c \<Rightarrow>
          sk\<lparr>counterMap := map (\<lambda>(k', c'). if k' = k then (k', c' + weight) else (k', c')) (counterMap sk)\<rparr>
      | None \<Rightarrow>
          if 4 * length (counterMap sk) < 3 * 2 ^ lgCurMapSize sk then
            sk\<lparr>counterMap := counterMap sk @ [(k, weight)]\<rparr>
          else if lgCurMapSize sk < lgMaxMapSize sk then
            sk\<lparr>lgCurMapSize := lgCurMapSize sk + 1, counterMap := counterMap sk @ [(k, weight)]\<rparr>
          else purge (sk\<lparr>counterMap := counterMap sk @ [(k, weight)]\<rparr>))"

text \<open>
  Modelled from the spec: \<open>update_many(item, weight)\<close> (4.1). It is a no-op that succeeds on the nil sentinel, an error on a
  weight below 1, otherwise the update followed by the addition to the stream length.
  The spec does not order the two checks; the one for nil is first here, as the spec
  states it first.
\<close>

definition UpdateMany :: "'a ItemsSketch \<Rightarrow> 'a option \<Rightarrow> int64 \<Rightarrow> 'a ItemsSketch outcome" where
  "UpdateMany sk item weight =
     (case item of
        None \<Rightarrow> Returned sk
      | Some k \<Rightarrow>
          if weight <s 1 then Failed ''InvalidArgument''
          else Returned ((update_algorithm sk k weight)\<lparr>streamLength := streamLength sk + weight\<rparr>))"

text \<open>Modelled from the spec: \<open>update(item)\<close> is \<open>update_many(item, 1)\<close> (4.1).\<close>

definition Update :: "'a ItemsSketch \<Rightarrow> 'a option \<Rightarrow> 'a ItemsSketch outcome" where
  "Update sk item = UpdateMany sk item 1"

text \<open>
  Modelled from the spec: the queries (4.1). \<open>get_estimate\<close> and \<open>get_lower_bound\<close> are
  \<open>stored(item)\<close>, \<open>get_upper_bound\<close> is \<open>stored(item) + offset\<close>,
  \<open>get_num_active_items\<close> is the size of the map and \<open>is_empty\<close> says that it is 0.
  In Go the three bounds return a value and an error; here they always return.
\<close>

definition GetEstimate :: "'a ItemsSketch \<Rightarrow> 'a option \<Rightarrow> int64 outcome" where
  "GetEstimate sk item = Returned (stored sk item)"

definition GetLowerBound :: "'a ItemsSketch \<Rightarrow> 'a option \<Rightarrow> int64 outcome" where
  "GetLowerBound sk item = Returned (stored sk item)"

definition GetUpperBound :: "'a ItemsSketch \<Rightarrow> 'a option \<Rightarrow> int64 outcome" where
  "GetUpperBound sk item = Returned (stored sk item + offset sk)"

definition GetStreamLength :: "'a ItemsSketch \<Rightarrow> int64" where
  "GetStreamLength sk = streamLength sk"

definition GetNumActiveItems :: "'a ItemsSketch \<Rightarrow> nat" where
  "GetNumActiveItems sk = length (counterMap sk)"

definition IsEmpty :: "'a ItemsSketch \<Rightarrow> bool" where
  "IsEmpty sk = (GetNumActiveItems sk = 0)"

section \<open>Concrete inputs\<close>

text \<open>
  Images in the layout of \<open>image_util\<close>, all with serial version 1, family 16,
  \<open>lg_k = 11\<close>, the compressed flag and seed hash \<open>0x1234\<close>. The flags byte is
  \<open>2 + 4 * ordinal\<close>.
\<close>

text \<open>An EMPTY_MERGED image (ordinal 0) and the state it imports to.\<close>

definition empty_merged_image :: "byte list" where
  "empty_merged_image = [2, 1, 16, 11, 0, 2, 0x34, 0x12]"

definition empty_merged_state :: CpcCompressedState where
  "empty_merged_state =
     \<lparr>CsvIsValid = False, WindowIsValid = False, LgK = 11, SeedHash = 0x1234,
      FiCol = 0, MergeFlag = True, NumCoupons = 0, Kxp = 0x40A0000000000000,
      HipEstAccum = 0, NumCsv = 0, CsvStream = [], CsvLengthInts = 0,
      CwStream = [], CwLengthInts = 0\<rparr>"

text \<open>
  A SPARSE_HYBRID_HIP image (ordinal 3, flags 14): 3 coupons, a stream of one word,
  \<open>kxp = 2046.5\<close> and \<open>hip_est_accum = 3.0\<close>; and the state it imports to.
\<close>

definition sparse_hip_image :: "byte list" where
  "sparse_hip_image =
     [8, 1, 16, 11, 0, 14, 0x34, 0x12,
      3, 0, 0, 0,
      1, 0, 0, 0,
      0, 0, 0, 0, 0, 0xFA, 0x9F, 0x40,
      0, 0, 0, 0, 0, 0, 0x08, 0x40,
      7, 0, 0, 0]"

definition sparse_hip_state :: CpcCompressedState where
  "sparse_hip_state =
     \<lparr>CsvIsValid = True, WindowIsValid = False, LgK = 11, SeedHash = 0x1234,
      FiCol = 0, MergeFlag = False, NumCoupons = 3,
      Kxp = 0x409FFA0000000000, HipEstAccum = 0x4008000000000000,
      NumCsv = 3, CsvStream = [7], CsvLengthInts = 1,
      CwStream = [], CwLengthInts = 0\<rparr>"

text \<open>
  A SPARSE_HYBRID_MERGED image (ordinal 2, flags 10) of its four preamble words and a
  stream of one word: 20 bytes.
\<close>

definition sparse_merged_image :: "byte list" where
  "sparse_merged_image =
     [4, 1, 16, 11, 0, 10, 0x34, 0x12,
      3, 0, 0, 0,
      1, 0, 0, 0,
      7, 0, 0, 0]"

text \<open>
  A PINNED_SLIDING_MERGED image (ordinal 6, flags 26) with its six preamble words and
  one word in each stream.
\<close>

definition pinned_sliding_image :: "byte list" where
  "pinned_sliding_image =
     [6, 1, 16, 11, 0, 26, 0x34, 0x12,
      3, 0, 0, 0,
      1, 0, 0, 0,
      1, 0, 0, 0,
      1, 0, 0, 0,
      5, 0, 0, 0,
      6, 0, 0, 0]"

text \<open>
  One instance of \<open>determineCorrectOffset\<close>, to evaluate \<open>uncompress\<close>. It stands for
  no formula of the repository.
\<close>

definition sample_determineCorrectOffset :: "go_int \<Rightarrow> uint64 \<Rightarrow> go_int" where
  "sample_determineCorrectOffset lgK coupons = lgK + go_int_of_uint64 coupons"

text \<open>A run of updates, stopping at the first one that does not return.\<close>

fun UpdateAll ::
  "'a ItemsSketch outcome \<Rightarrow> ('a option \<times> int64) list \<Rightarrow> 'a ItemsSketch outcome" where
  "UpdateAll r [] = r"
| "UpdateAll r ((item, weight) # us) =
     (case r of
        Returned sk \<Rightarrow> UpdateAll (UpdateMany sk item weight) us
      | Failed e \<Rightarrow> Failed e
      | Panicked m \<Rightarrow> Panicked m)"

text \<open>
  The updates of \<open>TestSeveralItem\<close> and of \<open>TestEstimationMode\<close>, and the sketch that
  the second run ends in: it has purged twice.
\<close>

definition several_items :: "(string option \<times> int64) list" where
  "several_items =
     [(Some ''a'', 1), (Some ''b'', 1), (Some ''c'', 1), (Some ''d'', 1),
      (Some ''b'', 1), (Some ''c'', 1), (Some ''b'', 1)]"

definition estimation_mode_items :: "(go_int option \<times> int64) list" where
  "estimation_mode_items =
     [(Some 1, 10), (Some 2, 1), (Some 3, 1), (Some 4, 1), (Some 5, 1), (Some 6, 1),
      (Some 7, 15), (Some 8, 1), (Some 9, 1), (Some 10, 1), (Some 11, 1), (Some 12, 1)]"

definition sample_IntHasher :: "go_int \<Rightarrow> uint64" where
  "sample_IntHasher item = item XOR 0x9E3779B97F4A7C15"

definition estimation_mode_sketch :: "go_int ItemsSketch" where
  "estimation_mode_sketch =
     \<lparr>lgMaxMapSize = 3, lgCurMapSize = 3, counterMap = [(1, 8), (7, 13)],
      offset = 2, streamLength = 35, hasher = sample_IntHasher\<rparr>"

section \<open>Format derivation\<close>

lemmas CpcFormat_defs =
  CpcformatEmptyMerged_def CpcFormatEmptyHip_def CpcFormatSparseHybridMerged_def
  CpcFormatSparceHybridHip_def CpcFormatPinnedSlidingMergedNosv_def
  CpcFormatPinnedSlidingHipNosv_def CpcFormatPinnedSlidingMerged_def
  CpcFormatPinnedSlidingHip_def

text \<open>The three tests of \<open>getFormat\<close> set disjoint bits, so the ordinal is their sum.\<close>

lemma getFormat_cases:
  "getFormat c =
     (if 0 <s CwLengthInts c then 4 else 0) +
     (if 0 <s NumCsv c then 2 else 0) +
     (if MergeFlag c then 1 else 0)"
  by (simp add: getFormat_def)

lemma getDefinedPreInts_table:
  "getDefinedPreInts 0 = Returned 2" "getDefinedPreInts 1 = Returned 2"
  "getDefinedPreInts 2 = Returned 4" "getDefinedPreInts 3 = Returned 8"
  "getDefinedPreInts 4 = Returned 4" "getDefinedPreInts 5 = Returned 8"
  "getDefinedPreInts 6 = Returned 6" "getDefinedPreInts 7 = Returned 10"
  by (simp_all add: getDefinedPreInts_def preIntsDefs_def go_int_of_byte_def word_sle_eq)

text \<open>
  C2. The claim: with \<open>cw_length_ints = 0\<close>, \<open>num_csv = 0\<close> and \<open>merge_flag = true\<close>,
  \<open>getFormat\<close> returns EMPTY_MERGED (ordinal 0); with \<open>cw_length_ints = 0\<close>,
  \<open>num_csv > 0\<close> and \<open>merge_flag = false\<close> it returns SPARSE_HYBRID_HIP (ordinal 3).
  What the code computes: \<open>getFormat\<close> sets bit 0 when \<open>MergeFlag\<close> holds, so the first
  state gets EMPTY_HIP (ordinal 1) and the second SPARSE_HYBRID_MERGED (ordinal 2).
\<close>

theorem getFormat_sets_bit0_on_MergeFlag:
  "(CwLengthInts c = 0 \<and> NumCsv c = 0 \<and> MergeFlag c \<longrightarrow> getFormat c = CpcFormatEmptyHip) \<and>
   (CwLengthInts c = 0 \<and> 0 <s NumCsv c \<and> \<not> MergeFlag c \<longrightarrow>
      getFormat c = CpcFormatSparseHybridMerged)"
  by (simp add: getFormat_cases CpcFormat_defs)

theorem getFormat_sets_bit0_on_MergeFlag_witness:
  "(CwLengthInts empty_merged_state = 0 \<and> NumCsv empty_merged_state = 0 \<and>
    MergeFlag empty_merged_state \<and> getFormat empty_merged_state = 1) \<and>
   (CwLengthInts sparse_hip_state = 0 \<and> 0 <s NumCsv sparse_hip_state \<and>
    \<not> MergeFlag sparse_hip_state \<and> getFormat sparse_hip_state = 2)"
  using getFormat_sets_bit0_on_MergeFlag [of empty_merged_state]
    getFormat_sets_bit0_on_MergeFlag [of sparse_hip_state]
  by (simp add: empty_merged_state_def sparse_hip_state_def CpcFormat_defs word_sless_alt)

text \<open>
  C10. For every state, whatever its fields hold, \<open>getFormat\<close> returns an ordinal from
  0 to 7; so the index into the eight-entry table \<open>preIntsDefs\<close> is in range, and
  \<open>getDefinedPreInts\<close> and \<open>getRequiredSerializedBytes\<close> return and do not panic.
\<close>

theorem getFormat_in_range:
  "getFormat c \<in> {0, 1, 2, 3, 4, 5, 6, 7} \<and>
   0 \<le>s getFormat c \<and> sint (getFormat c) < int (length preIntsDefs) \<and>
   (\<exists>n. getDefinedPreInts (getFormat c) = Returned n) \<and>
   (\<exists>n. getRequiredSerializedBytes c = Returned n)"
  by (simp add: getRequiredSerializedBytes_def getFormat_cases getDefinedPreInts_table
      preIntsDefs_def word_sle_eq)

section \<open>Required bytes\<close>

text \<open>
  C5. The claim: for every state \<open>getRequiredSerializedBytes\<close> returns
  \<open>4 * (pre_ints(format) + csv_length_ints + cw_length_ints)\<close>, where \<open>pre_ints\<close> maps
  the ordinals 0..7 to 2, 2, 4, 8, 4, 8, 6, 10, and a SPARSE_HYBRID_HIP state with
  \<open>csv_length_ints = 4\<close> and \<open>cw_length_ints = 0\<close> requires 48 bytes. What the code
  computes: the formula holds, in Go's \<open>int\<close> arithmetic, for the format that
  \<open>getFormat\<close> gives; but \<open>getFormat\<close> gives SPARSE_HYBRID_MERGED for the
  SPARSE_HYBRID_HIP state (\<open>merge_flag = false\<close>, \<open>num_csv > 0\<close>, no window), which so
  requires 32 bytes, and it is the merged state that requires 48.
\<close>

theorem getRequiredSerializedBytes_follows_getFormat:
  "getRequiredSerializedBytes c =
     Returned (4 * (pre_ints_spec (getFormat c) + CsvLengthInts c + CwLengthInts c)) \<and>
   map pre_ints_spec [0, 1, 2, 3, 4, 5, 6, 7] = [2, 2, 4, 8, 4, 8, 6, 10] \<and>
   (\<not> MergeFlag c \<and> 0 <s NumCsv c \<and> CwLengthInts c = 0 \<and> CsvLengthInts c = 4 \<longrightarrow>
      getFormat c = CpcFormatSparseHybridMerged \<and>
      getRequiredSerializedBytes c = Returned 32) \<and>
   (MergeFlag c \<and> 0 <s NumCsv c \<and> CwLengthInts c = 0 \<and> CsvLengthInts c = 4 \<longrightarrow>
      getFormat c = CpcFormatSparceHybridHip \<and>
      getRequiredSerializedBytes c = Returned 48)"
proof -
  have formula: "getRequiredSerializedBytes c =
      Returned (4 * (pre_ints_spec (getFormat c) + CsvLengthInts c + CwLengthInts c))"
    by (simp add: getRequiredSerializedBytes_def getFormat_cases getDefinedPreInts_table
        pre_ints_spec_def)
  have table: "map pre_ints_spec [0, 1, 2, 3, 4, 5, 6, 7] = [2, 2, 4, 8, 4, 8, 6, 10]"
    by (simp add: pre_ints_spec_def)
  have hip: "getFormat c = CpcFormatSparseHybridMerged \<and>
      getRequiredSerializedBytes c = Returned 32"
    if "\<not> MergeFlag c" "0 <s NumCsv c" "CwLengthInts c = 0" "CsvLengthInts c = 4"
    using that
    by (simp add: getRequiredSerializedBytes_def getFormat_cases getDefinedPreInts_table
        CpcFormat_defs)
  have merged: "getFormat c = CpcFormatSparceHybridHip \<and>
      getRequiredSerializedBytes c = Returned 48"
    if "MergeFlag c" "0 <s NumCsv c" "CwLengthInts c = 0" "CsvLengthInts c = 4"
    using that
    by (simp add: getRequiredSerializedBytes_def getFormat_cases getDefinedPreInts_table
        CpcFormat_defs)
  from formula table hip merged show ?thesis by blast
qed

theorem getRequiredSerializedBytes_follows_getFormat_witness:
  "(\<not> MergeFlag sample_state \<and> 0 <s NumCsv sample_state \<and>
    CwLengthInts sample_state = 0 \<and> CsvLengthInts sample_state = 4 \<and>
    getFormat sample_state = 2 \<and>
    getRequiredSerializedBytes sample_state = Returned 32) \<and>
   (MergeFlag (sample_state\<lparr>MergeFlag := True\<rparr>) \<and>
    0 <s NumCsv (sample_state\<lparr>MergeFlag := True\<rparr>) \<and>
    CwLengthInts (sample_state\<lparr>MergeFlag := True\<rparr>) = 0 \<and>
    CsvLengthInts (sample_state\<lparr>MergeFlag := True\<rparr>) = 4 \<and>
    getFormat (sample_state\<lparr>MergeFlag := True\<rparr>) = 3 \<and>
    getRequiredSerializedBytes (sample_state\<lparr>MergeFlag := True\<rparr>) = Returned 48)"
  using getRequiredSerializedBytes_follows_getFormat [of sample_state]
    getRequiredSerializedBytes_follows_getFormat [of "sample_state\<lparr>MergeFlag := True\<rparr>"]
  by (simp add: sample_state_def CpcFormat_defs word_sless_alt)

text \<open>
  With both lengths in the range of a 32-bit word of the image, nothing wraps around
  and the formula holds for the values.
\<close>

lemma pre_ints_spec_bounds: "0 \<le> sint (pre_ints_spec f) \<and> sint (pre_ints_spec f) \<le> 10"
  by (simp add: pre_ints_spec_def)

lemma getRequiredSerializedBytes_value:
  assumes csv: "0 \<le> sint (CsvLengthInts c)" "sint (CsvLengthInts c) < 2 ^ 32"
    and cw: "0 \<le> sint (CwLengthInts c)" "sint (CwLengthInts c) < 2 ^ 32"
  shows "\<exists>n. getRequiredSerializedBytes c = Returned n \<and>
     sint n =
       4 * (sint (pre_ints_spec (getFormat c)) + sint (CsvLengthInts c) + sint (CwLengthInts c))"
proof -
  let ?p = "pre_ints_spec (getFormat c)"
  let ?v = "4 * (sint ?p + sint (CsvLengthInts c) + sint (CwLengthInts c))"
  have ret: "getRequiredSerializedBytes c = Returned (4 * (?p + CsvLengthInts c + CwLengthInts c))"
    by (simp add: getRequiredSerializedBytes_def getFormat_cases getDefinedPreInts_table
        pre_ints_spec_def)
  have range: "- (2 ^ 63) \<le> ?v \<and> ?v < 2 ^ 63"
    using csv cw pre_ints_spec_bounds [of "getFormat c"] by simp
  have "4 * (?p + CsvLengthInts c + CwLengthInts c) = word_of_int ?v"
    by simp
  then have "sint (4 * (?p + CsvLengthInts c + CwLengthInts c)) = signed_take_bit 63 ?v"
    by (simp only: sint_sbintrunc') simp
  also have "\<dots> = ?v"
    using range by (simp add: signed_take_bit_int_eq_self)
  finally show ?thesis
    using ret by simp
qed

section \<open>Import\<close>

lemmas import_simps =
  importFromMemory_def NewCpcCompressedState_def withCapacity_def
  getRequiredSerializedBytes_def getFormat_cases getDefinedPreInts_table
  go_int_of_uint64_def CpcFormat_defs Let_def

lemmas image_simps =
  image_util_def image_checkLoPreamble_def image_checkCapacity_def image_ordinal_def
  image_getSvStream_def byte_at_def le32_at_def le64_at_def len_def
  float64_of_one_shl_def word_sle_eq word_sless_alt

lemma import_empty_merged_image:
  "importFromMemory image_util empty_merged_image = Returned empty_merged_state"
  by (simp add: import_simps image_simps empty_merged_image_def empty_merged_state_def)

lemma import_sparse_hip_image:
  "importFromMemory image_util sparse_hip_image = Returned sparse_hip_state"
  by (simp add: import_simps image_simps sparse_hip_image_def sparse_hip_state_def upt_rec)

text \<open>
  The capacity check of the SPARSE_HYBRID_MERGED arm asks \<open>getFormat\<close> for the format
  of the state, gets SPARSE_HYBRID_HIP with its eight preamble words, and so requires
  36 bytes of this image of 20.
\<close>

lemma import_sparse_merged_image:
  "importFromMemory image_util sparse_merged_image = Failed ''insufficient image bytes''"
  by (simp add: import_simps image_simps sparse_merged_image_def)

lemma ordinal_empty_merged_image: "getFormatOrdinal image_util empty_merged_image = 0"
  by (simp add: image_simps empty_merged_image_def)

lemma ordinal_sparse_hip_image: "getFormatOrdinal image_util sparse_hip_image = 3"
  by (simp add: image_simps sparse_hip_image_def)

lemma ordinal_pinned_sliding_image: "getFormatOrdinal image_util pinned_sliding_image = 6"
  by (simp add: image_simps pinned_sliding_image_def)

lemma preamble_pinned_sliding_image:
  "checkLoPreamble image_util pinned_sliding_image = None"
  "isCompressed image_util pinned_sliding_image"
  "getLgK image_util pinned_sliding_image = 11"
  by (simp_all add: image_simps pinned_sliding_image_def)

text \<open>
  C1. The claim: for every image that \<open>importFromMemory\<close> accepts, \<open>getFormat\<close> on the
  returned state has the ordinal stored in the image. What the code computes: import
  sets \<open>MergeFlag\<close> to the complement of the stored bit 0 and \<open>getFormat\<close> sets bit 0
  when \<open>MergeFlag\<close> holds, so on every accepted image the two ordinals differ in bit 0.
\<close>

theorem importFromMemory_getFormat_flips_bit0:
  "importFromMemory U bytes = Returned s \<Longrightarrow>
     getFormat s \<noteq> getFormatOrdinal U bytes \<and>
     (getFormat s AND 1 = 1) = (getFormatOrdinal U bytes AND 1 = 0)"
  by (auto simp: import_simps split: option.splits if_splits outcome.splits)

theorem importFromMemory_getFormat_flips_bit0_witness:
  "importFromMemory image_util empty_merged_image = Returned empty_merged_state \<and>
   getFormatOrdinal image_util empty_merged_image = CpcformatEmptyMerged \<and>
   getFormat empty_merged_state = CpcFormatEmptyHip"
  using importFromMemory_getFormat_flips_bit0 [OF import_empty_merged_image]
    import_empty_merged_image ordinal_empty_merged_image
  by (simp add: getFormat_cases empty_merged_state_def CpcFormat_defs)

text \<open>
  C3. The claim: for every input buffer \<open>importFromMemory\<close> returns a state or an
  error and never panics, also under the four PINNED_SLIDING formats. What the code
  computes: under a stored ordinal from 4 to 7 it never returns a state. It returns the
  error of \<open>checkLoPreamble\<close>, or the error "not compressed", and on every other image
  it panics: the default arm of the switch is \<open>panic("not implemented")\<close>, where the
  reference in the source's comment decodes the four formats.
\<close>

theorem importFromMemory_pinned_sliding_not_implemented:
  "getFormatOrdinal U bytes \<in> {4, 5, 6, 7} \<Longrightarrow>
     importFromMemory U bytes =
       (case checkLoPreamble U bytes of
          Some err \<Rightarrow> Failed err
        | None \<Rightarrow>
            if isCompressed U bytes then
              (if getLgK U bytes <s 0 then Panicked ''negative shift amount''
               else Panicked ''not implemented'')
            else Failed ''not compressed'') \<and>
     (\<forall>s. importFromMemory U bytes \<noteq> Returned s)"
  by (auto simp: import_simps split: option.splits)

theorem importFromMemory_pinned_sliding_not_implemented_witness:
  "getFormatOrdinal image_util pinned_sliding_image \<in> {4, 5, 6, 7} \<and>
   checkLoPreamble image_util pinned_sliding_image = None \<and>
   isCompressed image_util pinned_sliding_image \<and>
   getLgK image_util pinned_sliding_image = 11 \<and>
   importFromMemory image_util pinned_sliding_image = Panicked ''not implemented''"
proof -
  have ord: "getFormatOrdinal image_util pinned_sliding_image \<in> {4, 5, 6, 7}"
    by (simp add: ordinal_pinned_sliding_image)
  from importFromMemory_pinned_sliding_not_implemented [OF ord]
  show ?thesis
    by (simp add: ordinal_pinned_sliding_image preamble_pinned_sliding_image word_sless_alt)
qed

text \<open>\<open>int(u)\<close> has the value of \<open>u\<close> when \<open>u\<close> is below \<open>2 ^ 63\<close>.\<close>

lemma sint_go_int_of_uint64:
  assumes "uint u < 2 ^ 63"
  shows "sint (go_int_of_uint64 u) = uint u"
proof -
  have "- (2 ^ 63) \<le> (0::int)" by simp
  then have "- (2 ^ 63) \<le> uint u"
    using uint_ge_0 [of u] by (rule order_trans)
  with assms have "signed_take_bit 63 (uint u) = uint u"
    by (simp add: signed_take_bit_int_eq_self)
  then show ?thesis
    by (simp add: go_int_of_uint64_def sint_uint)
qed

text \<open>
  C7. For every image imported with success under a SPARSE_HYBRID format (stored
  ordinal 2 or 3), the state has \<open>num_csv == num_coupons\<close>: \<open>NumCsv\<close> is
  \<open>int(NumCoupons)\<close>, the same 64 bits, and the two have the same value whenever
  \<open>NumCoupons\<close> is below \<open>2 ^ 63\<close>.
\<close>

theorem importFromMemory_sparse_hybrid_NumCsv:
  "importFromMemory U bytes = Returned s \<Longrightarrow>
   getFormatOrdinal U bytes = CpcFormatSparseHybridMerged \<or>
   getFormatOrdinal U bytes = CpcFormatSparceHybridHip \<Longrightarrow>
     NumCsv s = go_int_of_uint64 (NumCoupons s) \<and>
     NumCoupons s = getNumCoupons U bytes \<and>
     (uint (NumCoupons s) < 2 ^ 63 \<longrightarrow> sint (NumCsv s) = uint (NumCoupons s))"
proof -
  assume ok: "importFromMemory U bytes = Returned s"
    and sparse: "getFormatOrdinal U bytes = CpcFormatSparseHybridMerged \<or>
      getFormatOrdinal U bytes = CpcFormatSparceHybridHip"
  from ok sparse have conv: "NumCsv s = go_int_of_uint64 (NumCoupons s)"
    by (auto simp: importFromMemory_def NewCpcCompressedState_def withCapacity_def
        CpcFormat_defs Let_def split: option.splits if_splits outcome.splits)
  from ok sparse have read: "NumCoupons s = getNumCoupons U bytes"
    by (auto simp: importFromMemory_def NewCpcCompressedState_def withCapacity_def
        CpcFormat_defs Let_def split: option.splits if_splits outcome.splits)
  from conv have "sint (NumCsv s) = uint (NumCoupons s)" if "uint (NumCoupons s) < 2 ^ 63"
    using sint_go_int_of_uint64 [OF that] by simp
  with conv read show ?thesis by blast
qed

theorem importFromMemory_sparse_hybrid_NumCsv_witness:
  "importFromMemory image_util sparse_hip_image = Returned sparse_hip_state \<and>
   getFormatOrdinal image_util sparse_hip_image = CpcFormatSparceHybridHip \<and>
   uint (NumCoupons sparse_hip_state) < 2 ^ 63 \<and>
   NumCsv sparse_hip_state = 3 \<and> NumCoupons sparse_hip_state = 3 \<and>
   sint (NumCsv sparse_hip_state) = uint (NumCoupons sparse_hip_state)"
  using importFromMemory_sparse_hybrid_NumCsv [OF import_sparse_hip_image]
    import_sparse_hip_image ordinal_sparse_hip_image
  by (simp add: sparse_hip_state_def CpcFormat_defs)

section \<open>Uncompress\<close>

lemma uncompress_sample_state:
  "uncompress sample_NewCpcSketch sample_determineCorrectOffset sample_state 9001 =
     Returned
       \<lparr>numCoupons = 3, windowOffset = 14, fiCol = 5, mergeFlag = False,
        kxp = 0x409FFA0000000000, hipEstAccum = 0x4008000000000000,
        slidingWindow = None, pairTable = None\<rparr>"
  by (simp add: uncompress_def getWindowOffset_def sample_NewCpcSketch_def
      sample_determineCorrectOffset_def sample_state_def go_int_of_uint64_def word_sless_alt)

text \<open>
  C4. The claim: \<open>uncompress(seed)\<close> fails with SeedMismatch whenever the hash of the
  seed disagrees with the stored \<open>seed_hash\<close>, and succeeds only when the two agree.
  What the code computes: the check of the seed hash is a comment in the source; the
  outcome of \<open>uncompress\<close> is the same whatever \<open>SeedHash\<close> the state stores, and it
  is a sketch whenever \<open>NewCpcSketch\<close> returns one.
\<close>

theorem uncompress_ignores_SeedHash:
  "uncompress NewCpcSketch determineCorrectOffset (c\<lparr>SeedHash := h\<rparr>) seed =
     uncompress NewCpcSketch determineCorrectOffset c seed \<and>
   (NewCpcSketch (LgK c) seed = Returned sketch0 \<longrightarrow>
      (\<exists>sketch. uncompress NewCpcSketch determineCorrectOffset (c\<lparr>SeedHash := h\<rparr>) seed =
         Returned sketch))"
  by (simp add: uncompress_def getWindowOffset_def split: outcome.splits)

theorem uncompress_ignores_SeedHash_witness:
  "sample_NewCpcSketch (LgK sample_state) 9001 =
     Returned
       \<lparr>numCoupons = 0, windowOffset = 0, fiCol = 0, mergeFlag = False, kxp = 0,
        hipEstAccum = 0, slidingWindow = Some [], pairTable = Some []\<rparr> \<and>
   SeedHash sample_state = 0x1234 \<and>
   uncompress sample_NewCpcSketch sample_determineCorrectOffset
       (sample_state\<lparr>SeedHash := 0x4321\<rparr>) 9001 =
     uncompress sample_NewCpcSketch sample_determineCorrectOffset sample_state 9001 \<and>
   (\<exists>sketch. uncompress sample_NewCpcSketch sample_determineCorrectOffset
       (sample_state\<lparr>SeedHash := 0x4321\<rparr>) 9001 = Returned sketch)"
proof -
  have new: "sample_NewCpcSketch (LgK sample_state) 9001 =
     Returned
       \<lparr>numCoupons = 0, windowOffset = 0, fiCol = 0, mergeFlag = False, kxp = 0,
        hipEstAccum = 0, slidingWindow = Some [], pairTable = Some []\<rparr>"
    by (simp add: sample_NewCpcSketch_def sample_state_def word_sless_alt)
  have hash: "SeedHash sample_state = 0x1234"
    by (simp add: sample_state_def)
  from new hash uncompress_ignores_SeedHash
    [where NewCpcSketch = sample_NewCpcSketch
       and determineCorrectOffset = sample_determineCorrectOffset
       and c = sample_state and h = "0x4321" and seed = 9001
       and ?sketch0.0 = "\<lparr>numCoupons = 0, windowOffset = 0, fiCol = 0, mergeFlag = False,
         kxp = 0, hipEstAccum = 0, slidingWindow = Some [], pairTable = Some []\<rparr>"]
  show ?thesis by blast
qed

text \<open>
  C6. Whenever \<open>uncompress\<close> succeeds, the sketch it returns has the state's
  \<open>num_coupons\<close>, \<open>fi_col\<close>, \<open>merge_flag\<close>, \<open>kxp\<close> and \<open>hip_est_accum\<close>, has
  \<open>determineCorrectOffset(lg_k, num_coupons)\<close> as its \<open>window_offset\<close>, and has a nil
  \<open>sliding_window\<close> and a nil \<open>pair_table\<close>.
\<close>

theorem uncompress_populates_sketch:
  "uncompress NewCpcSketch determineCorrectOffset c seed = Returned sketch \<Longrightarrow>
     numCoupons sketch = NumCoupons c \<and>
     windowOffset sketch = determineCorrectOffset (LgK c) (NumCoupons c) \<and>
     fiCol sketch = FiCol c \<and>
     mergeFlag sketch = MergeFlag c \<and>
     kxp sketch = Kxp c \<and>
     hipEstAccum sketch = HipEstAccum c \<and>
     slidingWindow sketch = None \<and>
     pairTable sketch = None"
  by (auto simp: uncompress_def getWindowOffset_def split: outcome.splits)

theorem uncompress_populates_sketch_witness:
  "\<exists>sketch.
     uncompress sample_NewCpcSketch sample_determineCorrectOffset sample_state 9001 =
       Returned sketch \<and>
     numCoupons sketch = 3 \<and> windowOffset sketch = 14 \<and> fiCol sketch = 5 \<and>
     mergeFlag sketch = False \<and> kxp sketch = Kxp sample_state \<and>
     hipEstAccum sketch = HipEstAccum sample_state \<and>
     slidingWindow sketch = None \<and> pairTable sketch = None"
  using uncompress_populates_sketch [OF uncompress_sample_state] uncompress_sample_state
  by (simp add: sample_state_def)

section \<open>Frequent-items sketch\<close>

lemmas update_simps =
  NewItemsSketch_def LG_MIN_MAP_SIZE_def UpdateMany_def update_algorithm_def purge_def
  median_count_def word_sless_alt

text \<open>
  The model against the tests under src/: \<open>TestSeveralItem\<close> expects 4 active items,
  stream length 7 and the estimates 1, 3, 2, 1; \<open>TestEstimationMode\<close> expects stream
  length 35 and exactly the items 1 and 7 with a count above 1.
\<close>

lemma TestSeveralItem_run:
  "UpdateAll (NewItemsSketch 3 h) several_items =
     Returned
       \<lparr>lgMaxMapSize = 3, lgCurMapSize = 3,
        counterMap = [(''a'', 1), (''b'', 3), (''c'', 2), (''d'', 1)],
        offset = 0, streamLength = 7, hasher = h\<rparr>"
  by (simp add: update_simps several_items_def)

lemma TestEstimationMode_run:
  "UpdateAll (NewItemsSketch 3 sample_IntHasher) estimation_mode_items =
     Returned estimation_mode_sketch"
  by (simp add: update_simps estimation_mode_items_def estimation_mode_sketch_def)

text \<open>\<open>TestNilInput\<close>: what the test asserts after an update with nil on a new sketch.\<close>

lemma TestNilInput_run:
  "NewItemsSketch 3 h = Returned sk \<Longrightarrow>
     Update sk None = Returned sk \<and> IsEmpty sk \<and> GetNumActiveItems sk = 0 \<and>
     GetStreamLength sk = 0 \<and> GetLowerBound sk None = Returned 0 \<and>
     GetUpperBound sk None = Returned 0"
  by (auto simp: NewItemsSketch_def Update_def UpdateMany_def IsEmpty_def GetNumActiveItems_def
      GetStreamLength_def GetLowerBound_def GetUpperBound_def stored_def split: if_splits)

text \<open>
  C8. On a sketch over a nullable item type, \<open>update\<close> with the nil sentinel returns
  without error and leaves the sketch as it was: the same stream length, counter map,
  number of active items and emptiness.
\<close>

theorem Update_nil_is_noop:
  "\<exists>sk'. Update sk None = Returned sk' \<and> sk' = sk \<and>
     GetStreamLength sk' = GetStreamLength sk \<and>
     counterMap sk' = counterMap sk \<and>
     GetNumActiveItems sk' = GetNumActiveItems sk \<and>
     IsEmpty sk' = IsEmpty sk"
  by (simp add: Update_def UpdateMany_def)

text \<open>
  C9. For every sketch and every item that is not in its counter map, \<open>get_estimate\<close>,
  \<open>get_lower_bound\<close> and \<open>get_upper_bound\<close> return without error: the first two
  return 0 and the third returns \<open>0 + offset\<close>, which is 0 on a sketch that has just
  been constructed.
\<close>

theorem queries_on_absent_item:
  "(\<not> present sk item \<longrightarrow>
      GetEstimate sk item = Returned 0 \<and>
      GetLowerBound sk item = Returned 0 \<and>
      GetUpperBound sk item = Returned (0 + offset sk)) \<and>
   (NewItemsSketch lgMax h = Returned sk0 \<longrightarrow>
      \<not> present sk0 item0 \<and>
      GetEstimate sk0 item0 = Returned 0 \<and>
      GetLowerBound sk0 item0 = Returned 0 \<and>
      GetUpperBound sk0 item0 = Returned 0)"
proof -
  have absent: "GetEstimate sk item = Returned 0 \<and> GetLowerBound sk item = Returned 0 \<and>
      GetUpperBound sk item = Returned (0 + offset sk)"
    if "\<not> present sk item"
    using that
    by (auto simp: present_def GetEstimate_def GetLowerBound_def GetUpperBound_def stored_def
        split: option.splits)
  have fresh: "\<not> present sk0 item0 \<and> GetEstimate sk0 item0 = Returned 0 \<and>
      GetLowerBound sk0 item0 = Returned 0 \<and> GetUpperBound sk0 item0 = Returned 0"
    if "NewItemsSketch lgMax h = Returned sk0"
    using that
    by (auto simp: NewItemsSketch_def present_def GetEstimate_def GetLowerBound_def
        GetUpperBound_def stored_def split: option.splits if_splits)
  from absent fresh show ?thesis by blast
qed

theorem queries_on_absent_item_witness:
  "(\<not> present estimation_mode_sketch (Some 2) \<and>
    GetEstimate estimation_mode_sketch (Some 2) = Returned 0 \<and>
    GetLowerBound estimation_mode_sketch (Some 2) = Returned 0 \<and>
    GetUpperBound estimation_mode_sketch (Some 2) = Returned 2) \<and>
   (\<exists>sk0. NewItemsSketch 3 sample_IntHasher = Returned sk0 \<and>
      GetEstimate sk0 (Some 2) = Returned 0 \<and>
      GetLowerBound sk0 (Some 2) = Returned 0 \<and>
      GetUpperBound sk0 (Some 2) = Returned 0)"
  using queries_on_absent_item
    [of estimation_mode_sketch "Some 2" 3 sample_IntHasher
      "\<lparr>lgMaxMapSize = 3, lgCurMapSize = 3, counterMap = [], offset = 0, streamLength = 0,
        hasher = sample_IntHasher\<rparr>" "Some 2"]
  by (simp add: present_def estimation_mode_sketch_def NewItemsSketch_def LG_MIN_MAP_SIZE_def)

end
